theory Spec2Isabelle
  imports Main "HOL-Library.Product_Lexorder"
begin

section \<open>The upcoming-streams widget (youtube-upcoming.js)\<close>

text \<open>
  The source file holds the widget twice (an older and a newer listing). The two agree on
  the cache, on the filter, on the comparator and on the control flow of
  \<^verbatim>\<open>fetchUpcoming\<close>; they differ in the fields an event carries besides its three
  date-times and in the wording of the messages. The model follows the first listing.
\<close>

subsection \<open>JavaScript numbers\<close>

text \<open>
  The numbers the widget computes with are integers (milliseconds, hours, counts), the two
  infinities and NaN. \<open>Num n\<close> is the integer \<open>n\<close>. Sums and products are taken
  exactly; the rounding of a double beyond \<open>2^53\<close> is modelled where a number is read from
  a string (\<open>to_double\<close> below).
\<close>

datatype jsnum = Num int | PosInf | NegInf | NaN

fun js_neg :: "jsnum \<Rightarrow> jsnum" where
  "js_neg (Num a) = Num (- a)"
| "js_neg PosInf = NegInf"
| "js_neg NegInf = PosInf"
| "js_neg NaN = NaN"

fun js_add :: "jsnum \<Rightarrow> jsnum \<Rightarrow> jsnum" where
  "js_add (Num a) (Num b) = Num (a + b)"
| "js_add (Num a) PosInf = PosInf"
| "js_add (Num a) NegInf = NegInf"
| "js_add PosInf (Num b) = PosInf"
| "js_add PosInf PosInf = PosInf"
| "js_add PosInf NegInf = NaN"
| "js_add NegInf (Num b) = NegInf"
| "js_add NegInf NegInf = NegInf"
| "js_add NegInf PosInf = NaN"
| "js_add NaN y = NaN"
| "js_add x NaN = NaN"

definition js_sub :: "jsnum \<Rightarrow> jsnum \<Rightarrow> jsnum" where
  "js_sub x y = js_add x (js_neg y)"

fun js_mul :: "jsnum \<Rightarrow> jsnum \<Rightarrow> jsnum" where
  "js_mul (Num a) (Num b) = Num (a * b)"
| "js_mul NaN y = NaN"
| "js_mul x NaN = NaN"
| "js_mul (Num a) PosInf = (if a = 0 then NaN else if 0 < a then PosInf else NegInf)"
| "js_mul (Num a) NegInf = (if a = 0 then NaN else if 0 < a then NegInf else PosInf)"
| "js_mul PosInf (Num b) = (if b = 0 then NaN else if 0 < b then PosInf else NegInf)"
| "js_mul NegInf (Num b) = (if b = 0 then NaN else if 0 < b then NegInf else PosInf)"
| "js_mul PosInf PosInf = PosInf"
| "js_mul NegInf NegInf = PosInf"
| "js_mul PosInf NegInf = NegInf"
| "js_mul NegInf PosInf = NegInf"

text \<open>The comparison \<^verbatim>\<open>x < y\<close>: false as soon as one side is NaN.\<close>

fun js_lt :: "jsnum \<Rightarrow> jsnum \<Rightarrow> bool" where
  "js_lt (Num a) (Num b) = (a < b)"
| "js_lt (Num a) PosInf = True"
| "js_lt NegInf (Num b) = True"
| "js_lt NegInf PosInf = True"
| "js_lt x y = False"

definition js_le :: "jsnum \<Rightarrow> jsnum \<Rightarrow> bool" where
  "js_le x y = (x \<noteq> NaN \<and> y \<noteq> NaN \<and> (js_lt x y \<or> x = y))"

text \<open>\<^verbatim>\<open>Math.min\<close> and \<^verbatim>\<open>Math.max\<close> of two arguments: NaN as soon as one argument is.\<close>

definition Math_min :: "jsnum \<Rightarrow> jsnum \<Rightarrow> jsnum" where
  "Math_min x y = (if x = NaN \<or> y = NaN then NaN else if js_lt y x then y else x)"

definition Math_max :: "jsnum \<Rightarrow> jsnum \<Rightarrow> jsnum" where
  "Math_max x y = (if x = NaN \<or> y = NaN then NaN else if js_lt x y then y else x)"

subsection \<open>Event records\<close>

text \<open>
  A date-time field holds a string, which the widget reads with
  \<^verbatim>\<open>new Date(s).getTime()\<close>. The model holds a non-empty string by what that call makes
  of it: \<open>Iso t\<close> is a string that denotes the instant \<open>t\<close> (milliseconds since the
  epoch), as the ISO 8601 date-times of the details endpoint do; \<open>Unreadable s\<close> is the
  string \<open>s\<close> that \<^verbatim>\<open>Date\<close> cannot read, for which \<^verbatim>\<open>getTime()\<close> is NaN. A field is \<open>None\<close>
  where the source has \<^verbatim>\<open>null\<close>; a field that is \<open>Some d\<close> is a non-empty string and
  so truthy.
\<close>

type_synonym timestamp = int

datatype date_string = Iso timestamp | Unreadable string

fun getTime :: "date_string \<Rightarrow> jsnum" where
  "getTime (Iso t) = Num t"
| "getTime (Unreadable s) = NaN"

record event =
  id_v :: string
  title :: string
  desc :: string
  thumb :: string
  scheduled :: "date_string option"
  actualStart :: "date_string option"
  actualEnd :: "date_string option"
  channelTitle :: string

definition truthy :: "'a option \<Rightarrow> bool" where
  "truthy x = (x \<noteq> None)"

subsection \<open>The filter and the comparator of fetchUpcoming\<close>

text \<open>\<^verbatim>\<open>hidePastMs = HIDE_PAST_HOURS * 60 * 60 * 1000\<close>\<close>

definition hidePastMs :: "jsnum \<Rightarrow> jsnum" where
  "hidePastMs hide_past_hours = js_mul (js_mul (js_mul hide_past_hours (Num 60)) (Num 60)) (Num 1000)"

text \<open>The predicate given to \<^verbatim>\<open>.filter\<close>: \<open>True\<close> keeps the event.\<close>

definition fresh :: "timestamp \<Rightarrow> jsnum \<Rightarrow> event \<Rightarrow> bool" where
  "fresh now hide_ms ev =
     (if truthy (actualEnd ev) then False
      else case scheduled ev of
             Some d \<Rightarrow>
               (let schedMs = getTime d in
                if \<not> truthy (actualStart ev) \<and> js_lt (js_add schedMs hide_ms) (Num now)
                then False else True)
           | None \<Rightarrow> True)"

text \<open>The function given to \<^verbatim>\<open>.sort\<close>: \<^verbatim>\<open>ta - tb\<close>, with Infinity for a missing start.\<close>

definition sort_time :: "event \<Rightarrow> jsnum" where
  "sort_time a = (case scheduled a of Some d \<Rightarrow> getTime d | None \<Rightarrow> PosInf)"

definition comparator :: "event \<Rightarrow> event \<Rightarrow> jsnum" where
  "comparator a b = js_sub (sort_time a) (sort_time b)"

text \<open>
  \<^verbatim>\<open>Array.prototype.sort\<close> is a stable sort: \<open>a\<close> is moved behind \<open>b\<close> only when the
  comparator's value for \<open>(a, b)\<close> is greater than zero, a NaN value counting as zero.
  For a comparator that orders the elements consistently the result is fixed by that;
  the insertion sort below computes it. With an unreadable date the comparator's value is
  NaN against every other event and the language leaves the order to the engine; the
  insertion sort then never moves an event past one it is not greater than, which on
  short arrays is what the engines do.
\<close>

fun insert_sorted :: "('a \<Rightarrow> 'a \<Rightarrow> jsnum) \<Rightarrow> 'a \<Rightarrow> 'a list \<Rightarrow> 'a list" where
  "insert_sorted cmp x [] = [x]"
| "insert_sorted cmp x (y # ys) =
     (if js_lt (Num 0) (cmp x y) then y # insert_sorted cmp x ys else x # y # ys)"

definition array_sort :: "('a \<Rightarrow> 'a \<Rightarrow> jsnum) \<Rightarrow> 'a list \<Rightarrow> 'a list" where
  "array_sort cmp xs = foldr (insert_sorted cmp) xs []"

definition filter_sort :: "timestamp \<Rightarrow> jsnum \<Rightarrow> event list \<Rightarrow> event list" where
  "filter_sort now hide_ms evs = array_sort comparator (filter (fresh now hide_ms) evs)"

subsection \<open>Records of the details endpoint and their normalisation\<close>

text \<open>
  An item of the details endpoint, as far as the widget reads it. A property that is
  missing (\<^verbatim>\<open>undefined\<close>) is \<open>None\<close>; so is a date-time that is \<^verbatim>\<open>null\<close> or the empty
  string, which \<^verbatim>\<open>|| null\<close> turns into \<^verbatim>\<open>null\<close> all the same.
\<close>

record yt_thumbnail =
  url :: "string option"

record yt_thumbnails =
  maxres :: "yt_thumbnail option"
  standard :: "yt_thumbnail option"
  high :: "yt_thumbnail option"
  medium :: "yt_thumbnail option"
  default_t :: "yt_thumbnail option"

record yt_snippet =
  title_s :: "string option"
  description :: "string option"
  channelTitle_s :: "string option"
  thumbnails :: "yt_thumbnails option"

record yt_live =
  scheduledStartTime :: "date_string option"
  actualStartTime :: "date_string option"
  actualEndTime :: "date_string option"

record yt_video =
  id_r :: string
  snippet :: "yt_snippet option"
  liveStreamingDetails :: "yt_live option"

text \<open>\<^verbatim>\<open>s || d\<close> for a string property: the default when it is missing or empty.\<close>

definition or_str :: "string option \<Rightarrow> string \<Rightarrow> string" where
  "or_str s d = (case s of None \<Rightarrow> d | Some t \<Rightarrow> if t = [] then d else t)"

text \<open>\<^verbatim>\<open>a || b\<close> for two objects that may be missing.\<close>

definition or_else :: "'a option \<Rightarrow> 'a option \<Rightarrow> 'a option" where
  "or_else a b = (case a of Some x \<Rightarrow> Some x | None \<Rightarrow> b)"

definition thumbUrl :: "yt_video \<Rightarrow> string" where
  "thumbUrl item =
     (let t = Option.bind (snippet item) thumbnails;
          pick = or_else (Option.bind t maxres)
                  (or_else (Option.bind t standard)
                    (or_else (Option.bind t high)
                      (or_else (Option.bind t medium) (Option.bind t default_t))))
      in or_str (Option.bind pick url) [])"

text \<open>The function given to \<^verbatim>\<open>.map\<close>: one event record for each item.\<close>

definition normalize :: "yt_video \<Rightarrow> event" where
  "normalize v =
     (let lsd = liveStreamingDetails v in
      \<lparr> id_v = id_r v,
        title = or_str (Option.bind (snippet v) title_s) ''Untitled'',
        desc = or_str (Option.bind (snippet v) description) [],
        thumb = thumbUrl v,
        scheduled = Option.bind lsd scheduledStartTime,
        actualStart = Option.bind lsd actualStartTime,
        actualEnd = Option.bind lsd actualEndTime,
        channelTitle = or_str (Option.bind (snippet v) channelTitle_s) [] \<rparr>)"

definition detailed :: "timestamp \<Rightarrow> jsnum \<Rightarrow> yt_video list \<Rightarrow> event list" where
  "detailed now hide_ms vs = filter_sort now hide_ms (map normalize vs)"

subsection \<open>Configuration read from the mount element\<close>

text \<open>
  Strings are held as their UTF-8 bytes. \<open>space_len s\<close> is the number of bytes of the
  white space or line terminator character at the head of \<open>s\<close>, zero when there is none:
  U+0009 to U+000D, U+0020, U+00A0, U+1680, U+2000 to U+200A, U+2028, U+2029, U+202F,
  U+205F, U+3000 and U+FEFF.
\<close>

definition space_len :: "string \<Rightarrow> nat" where
  "space_len s =
     (if take 1 s \<in> {[CHR 0x09], [CHR 0x0A], [CHR 0x0B], [CHR 0x0C], [CHR 0x0D], [CHR 0x20]}
      then 1
      else if take 2 s = [CHR 0xC2, CHR 0xA0] then 2
      else if take 3 s \<in> {[CHR 0xE1, CHR 0x9A, CHR 0x80], [CHR 0xE2, CHR 0x80, CHR 0xA8],
                           [CHR 0xE2, CHR 0x80, CHR 0xA9], [CHR 0xE2, CHR 0x80, CHR 0xAF],
                           [CHR 0xE2, CHR 0x81, CHR 0x9F], [CHR 0xE3, CHR 0x80, CHR 0x80],
                           [CHR 0xEF, CHR 0xBB, CHR 0xBF]}
              \<or> (take 2 s = [CHR 0xE2, CHR 0x80] \<and> length s \<ge> 3
                  \<and> (128::nat) \<le> of_char (s ! 2) \<and> of_char (s ! 2) \<le> (138::nat))
      then 3
      else 0)"

function skip_space :: "string \<Rightarrow> string" where
  "skip_space s = (if space_len s = 0 then s else skip_space (drop (space_len s) s))"
  by pat_completeness auto
termination
proof (relation "measure length")
  show "wf (measure length)" by simp
next
  fix s :: string
  assume pos: "space_len s \<noteq> 0"
  have "space_len [] = 0" by (simp add: space_len_def)
  with pos have "s \<noteq> []" by auto
  with pos show "(drop (space_len s) s, s) \<in> measure length" by simp
qed

declare skip_space.simps [simp del]

definition is_digit :: "char \<Rightarrow> bool" where
  "is_digit c = (c \<in> set ''0123456789'')"

definition digit_value :: "char \<Rightarrow> int" where
  "digit_value c = int (of_char c) - 48"

definition digits_value :: "string \<Rightarrow> int" where
  "digits_value ds = foldl (\<lambda>a c. 10 * a + digit_value c) 0 ds"

text \<open>
  The Number nearest to an integer: exact below \<open>2^53\<close>, beyond that rounded to 53
  significant bits, to the even neighbour on a tie, and Infinity from \<open>2^1024\<close> on.
\<close>

fun bit_length :: "nat \<Rightarrow> nat" where
  "bit_length n = (if n = 0 then 0 else Suc (bit_length (n div 2)))"

declare bit_length.simps [simp del]

definition to_double :: "int \<Rightarrow> jsnum" where
  "to_double n =
     (let m = nat \<bar>n\<bar> in
      if m < 2 ^ 53 then Num n
      else
        (let e = bit_length m - 53;
             q = m div 2 ^ e;
             r = m mod 2 ^ e;
             q' = (if 2 * r > 2 ^ e \<or> (2 * r = 2 ^ e \<and> odd q) then q + 1 else q);
             v = q' * 2 ^ e
         in if v \<ge> 2 ^ 1024 then (if n < 0 then NegInf else PosInf)
            else Num (if n < 0 then - int v else int v)))"

text \<open>
  \<^verbatim>\<open>parseInt(s, 10)\<close>: leading white space is skipped, a sign is read, then the longest
  run of decimal digits; NaN when there is no digit, else the Number for the integer
  read. (Past the twentieth digit the language lets an engine read zeros; the model reads
  the digits.)
\<close>

definition parseInt10 :: "string \<Rightarrow> jsnum" where
  "parseInt10 s =
     (let t = skip_space s;
          negative = (t \<noteq> [] \<and> hd t = CHR ''-'');
          u = (if t \<noteq> [] \<and> (hd t = CHR ''-'' \<or> hd t = CHR ''+'') then tl t else t);
          ds = takeWhile is_digit u
      in if ds = [] then NaN
         else to_double ((if negative then - 1 else 1) * digits_value ds))"

text \<open>\<^verbatim>\<open>mount.getAttribute(..)\<close> is \<open>None\<close> when the attribute is absent.\<close>

definition MAX_RESULTS :: "string option \<Rightarrow> jsnum" where
  "MAX_RESULTS data_max_results = Math_min (parseInt10 (or_str data_max_results ''12'')) (Num 50)"

definition HIDE_PAST_HOURS :: "string option \<Rightarrow> jsnum" where
  "HIDE_PAST_HOURS data_hide_past_hours =
     Math_max (Num 0) (parseInt10 (or_str data_hide_past_hours ''6''))"

record attributes =
  data_api_key :: "string option"
  data_channel_id :: "string option"
  data_max_results :: "string option"
  data_channel_handle :: "string option"
  data_hide_past_hours :: "string option"

record config =
  api_key :: string
  channel_id :: string
  max_results :: jsnum
  channel_handle :: "string option"
  hide_past_hours :: jsnum

text \<open>
  The constants at the head of the widget. \<open>None\<close> is the early return with the message
  that the key or the channel is missing. The display mode and the time zone only reach
  the formatting of a card and are left out.
\<close>

definition read_config :: "attributes \<Rightarrow> config option" where
  "read_config at =
     (if or_str (data_api_key at) [] = [] \<or> or_str (data_channel_id at) [] = [] then None
      else Some \<lparr> api_key = or_str (data_api_key at) [],
                  channel_id = or_str (data_channel_id at) [],
                  max_results = MAX_RESULTS (data_max_results at),
                  channel_handle =
                    (if or_str (data_channel_handle at) [] = [] then None
                     else data_channel_handle at),
                  hide_past_hours = HIDE_PAST_HOURS (data_hide_past_hours at) \<rparr>)"

subsection \<open>The cache\<close>

text \<open>
  What \<^verbatim>\<open>JSON.parse\<close> makes of a stored string: the pair written by \<^verbatim>\<open>writeCache\<close>, or
  an exception. \<open>setItem_throws\<close> is a storage that refuses every write (quota used up,
  storage disabled): \<^verbatim>\<open>localStorage.setItem\<close> raises there.
\<close>

datatype stored = Entry timestamp "event list" | Unparsable

record local_storage =
  entries :: "string \<rightharpoonup> stored"
  setItem_throws :: bool

definition CACHE_KEY :: "config \<Rightarrow> string" where
  "CACHE_KEY cfg = ''yt_upcoming_'' @ channel_id cfg"

definition CACHE_MS :: int where
  "CACHE_MS = 5 * 60 * 1000"

text \<open>The first argument after the configuration is the value of \<^verbatim>\<open>Date.now()\<close>.\<close>

definition readCache :: "config \<Rightarrow> timestamp \<Rightarrow> local_storage \<Rightarrow> event list option" where
  "readCache cfg now ls =
     (case entries ls (CACHE_KEY cfg) of
        None \<Rightarrow> None
      | Some Unparsable \<Rightarrow> None
      | Some (Entry ts data) \<Rightarrow> if now - ts > CACHE_MS then None else Some data)"

definition writeCache :: "config \<Rightarrow> timestamp \<Rightarrow> event list \<Rightarrow> local_storage \<Rightarrow> local_storage" where
  "writeCache cfg now data ls =
     (if setItem_throws ls then ls
      else ls\<lparr>entries := (entries ls)(CACHE_KEY cfg \<mapsto> Entry now data)\<rparr>)"

subsection \<open>The page: grid, status line, storage and the requests sent\<close>

definition escape_char :: "char \<Rightarrow> string" where
  "escape_char c =
     (if c = CHR ''&'' then ''&amp;''
      else if c = CHR ''<'' then ''&lt;''
      else if c = CHR ''>'' then ''&gt;''
      else if c = CHR 0x22 then ''&quot;''
      else if c = CHR 0x27 then ''&#39;''
      else [c])"

definition escapeHtml :: "string \<Rightarrow> string" where
  "escapeHtml str = concat (map escape_char str)"

text \<open>A card of the grid; the wording of the start time in the visitor's locale is not modelled.\<close>

record card =
  card_thumb :: string
  card_title :: string
  card_starts :: "date_string option"
  card_opens :: string

datatype grid_html =
    Blank
  | Cta string string
  | Cards "card list"
  | Error_box

record search_request =
  s_key :: string
  s_channelId :: string
  s_part :: string
  s_type :: string
  s_eventType :: string
  s_order :: string
  s_maxResults :: jsnum

record videos_request =
  v_key :: string
  v_id :: string
  v_part :: string

datatype request = Search_request search_request | Videos_request videos_request

record widget =
  storage :: local_storage
  grid :: grid_html
  status :: string
  requests :: "request list"

definition renderGrid :: "config \<Rightarrow> event list \<Rightarrow> widget \<Rightarrow> widget" where
  "renderGrid cfg videos w =
     (if videos = [] then
        (let liveUrl = (case channel_handle cfg of
                          Some h \<Rightarrow> ''https://www.youtube.com/'' @ h @ ''/live''
                        | None \<Rightarrow> ''https://www.youtube.com/channel/'' @ channel_id cfg @ ''/live'');
             subscribeUrl = ''https://www.youtube.com/''
                            @ (case channel_handle cfg of
                                 Some h \<Rightarrow> h
                               | None \<Rightarrow> ''channel/'' @ channel_id cfg)
                            @ ''?sub_confirmation=1''
         in w\<lparr>grid := Cta liveUrl subscribeUrl\<rparr>)
      else
        w\<lparr>grid := Cards (map (\<lambda>v. \<lparr> card_thumb = thumb v,
                                     card_title = escapeHtml (title v),
                                     card_starts = scheduled v,
                                     card_opens = id_v v \<rparr>) videos)\<rparr>)"

definition loadFromCache :: "config \<Rightarrow> timestamp \<Rightarrow> widget \<Rightarrow> widget \<times> bool" where
  "loadFromCache cfg now w =
     (case readCache cfg now (storage w) of
        Some cached \<Rightarrow> ((renderGrid cfg cached w)\<lparr>status := ''Loaded from cache.''\<rparr>, True)
      | None \<Rightarrow> (w, False))"

subsection \<open>The two remote calls\<close>

text \<open>
  What \<^verbatim>\<open>fetch\<close> gives: a rejected promise (network failure), or a response with its
  status code and a body. \<open>Malformed\<close> is a body on which \<^verbatim>\<open>.json()\<close> rejects; \<open>Json its\<close>
  is a parsed body with its \<^verbatim>\<open>items\<close> property, \<open>None\<close> when that is missing.
\<close>

datatype 'i json_body = Malformed | Json "'i list option"

datatype 'i response = Network_error | Response nat "'i json_body"

record search_item =
  videoId :: "string option"

record network =
  search_endpoint :: "search_request \<Rightarrow> search_item response"
  videos_endpoint :: "videos_request \<Rightarrow> yt_video response"

definition ok :: "nat \<Rightarrow> bool" where
  "ok st = (200 \<le> st \<and> st \<le> 299)"

fun join :: "string \<Rightarrow> string list \<Rightarrow> string" where
  "join sep [] = []"
| "join sep [x] = x"
| "join sep (x # y # zs) = x @ sep @ join sep (y # zs)"

text \<open>\<^verbatim>\<open>(searchData.items || []).map(i => i.id?.videoId).filter(Boolean)\<close>\<close>

definition video_ids :: "search_item list option \<Rightarrow> string list" where
  "video_ids its =
     filter (\<lambda>s. s \<noteq> [])
       (List.map_filter videoId (case its of None \<Rightarrow> [] | Some xs \<Rightarrow> xs))"

text \<open>The handler of \<^verbatim>\<open>catch\<close>.\<close>

definition show_error :: "widget \<Rightarrow> widget" where
  "show_error w = w\<lparr>status := ''Error loading upcoming streams.'', grid := Error_box\<rparr>"

definition loading_text :: string where
  "loading_text = ''Loading upcoming streams'' @ [CHR 0xE2, CHR 0x80, CHR 0xA6]"

text \<open>The two URLs with their query parameters.\<close>

definition searchURL :: "config \<Rightarrow> search_request" where
  "searchURL cfg =
     \<lparr> s_key = api_key cfg, s_channelId = channel_id cfg, s_part = ''snippet'',
       s_type = ''video'', s_eventType = ''upcoming'', s_order = ''date'',
       s_maxResults = max_results cfg \<rparr>"

definition videosURL :: "config \<Rightarrow> string list \<Rightarrow> videos_request" where
  "videosURL cfg ids =
     \<lparr> v_key = api_key cfg, v_id = join '','' ids, v_part = ''snippet,liveStreamingDetails'' \<rparr>"

text \<open>
  \<^verbatim>\<open>fetchUpcoming\<close>. \<open>now\<close> is the clock read before the filter, \<open>wrote\<close> the clock read
  inside \<^verbatim>\<open>writeCache\<close>. Every request is appended to \<open>requests\<close> when it is sent.
  Each \<open>show_error\<close> is a \<^verbatim>\<open>throw\<close> or a rejected promise that reaches \<^verbatim>\<open>catch\<close>.
\<close>

definition fetchUpcoming :: "config \<Rightarrow> network \<Rightarrow> timestamp \<Rightarrow> timestamp \<Rightarrow> widget \<Rightarrow> widget" where
  "fetchUpcoming cfg net now wrote w0 =
     (let w1 = w0\<lparr>status := loading_text\<rparr>;
          w2 = w1\<lparr>requests := requests w1 @ [Search_request (searchURL cfg)]\<rparr>
      in case search_endpoint net (searchURL cfg) of
           Network_error \<Rightarrow> show_error w2
         | Response st body \<Rightarrow>
             if \<not> ok st then show_error w2
             else (case body of
                     Malformed \<Rightarrow> show_error w2
                   | Json search_items \<Rightarrow>
                       (let ids = video_ids search_items in
                        if ids = [] then
                          (let w3 = renderGrid cfg [] w2;
                               w4 = w3\<lparr>status := ''No upcoming live streams scheduled.''\<rparr>
                           in w4\<lparr>storage := writeCache cfg wrote [] (storage w4)\<rparr>)
                        else
                          (let w3 = w2\<lparr>requests :=
                                         requests w2 @ [Videos_request (videosURL cfg ids)]\<rparr>
                           in case videos_endpoint net (videosURL cfg ids) of
                                Network_error \<Rightarrow> show_error w3
                              | Response st2 body2 \<Rightarrow>
                                  if \<not> ok st2 then show_error w3
                                  else (case body2 of
                                          Malformed \<Rightarrow> show_error w3
                                        | Json video_items \<Rightarrow>
                                            (let evs = detailed now (hidePastMs (hide_past_hours cfg))
                                                         (case video_items of
                                                            None \<Rightarrow> []
                                                          | Some vs \<Rightarrow> vs);
                                                 w4 = renderGrid cfg evs w3;
                                                 w5 = w4\<lparr>storage :=
                                                          writeCache cfg wrote evs (storage w4)\<rparr>
                                             in w5\<lparr>status := []\<rparr>))))))"

text \<open>The last lines of the widget: the cached list first, then the fetch.\<close>

definition start :: "config \<Rightarrow> network \<Rightarrow> timestamp \<Rightarrow> timestamp \<Rightarrow> timestamp \<Rightarrow> widget \<Rightarrow> widget" where
  "start cfg net loaded now wrote w =
     (let (w1, hadCache) = loadFromCache cfg loaded w;
          w2 = fetchUpcoming cfg net now wrote w1
      in if hadCache then w2\<lparr>status := []\<rparr> else w2)"

subsection \<open>Sample data\<close>

definition sample_event ::
  "string \<Rightarrow> date_string option \<Rightarrow> date_string option \<Rightarrow> date_string option \<Rightarrow> event" where
  "sample_event i s a e =
     \<lparr> id_v = i, title = ''Sunday service'', desc = [], thumb = [],
       scheduled = s, actualStart = a, actualEnd = e, channelTitle = ''VUMC'' \<rparr>"

definition sample_video :: "string \<Rightarrow> yt_live option \<Rightarrow> yt_video" where
  "sample_video i l = \<lparr> id_r = i, snippet = None, liveStreamingDetails = l \<rparr>"

definition sample_attributes :: "string option \<Rightarrow> attributes" where
  "sample_attributes m =
     \<lparr> data_api_key = Some ''key'', data_channel_id = Some ''UC1'', data_max_results = m,
       data_channel_handle = None, data_hide_past_hours = None \<rparr>"

definition sample_config :: config where
  "sample_config =
     \<lparr> api_key = ''key'', channel_id = ''UC1'', max_results = Num 12,
       channel_handle = None, hide_past_hours = Num 6 \<rparr>"

definition sample_widget :: "local_storage \<Rightarrow> widget" where
  "sample_widget ls = \<lparr> storage = ls, grid = Blank, status = [], requests = [] \<rparr>"

definition offline :: network where
  "offline = \<lparr> search_endpoint = (\<lambda>_. Network_error), videos_endpoint = (\<lambda>_. Network_error) \<rparr>"

definition forbidden_details :: network where
  "forbidden_details =
     \<lparr> search_endpoint = (\<lambda>_. Response 200 (Json (Some [\<lparr> videoId = Some ''v1'' \<rparr>]))),
       videos_endpoint = (\<lambda>_. Response 403 Malformed) \<rparr>"

definition empty_storage :: local_storage where
  "empty_storage = \<lparr> entries = Map.empty, setItem_throws = False \<rparr>"

definition nothing_scheduled :: network where
  "nothing_scheduled = offline\<lparr>search_endpoint := \<lambda>_. Response 200 (Json (Some []))\<rparr>"

definition refusing_storage :: local_storage where
  "refusing_storage =
     \<lparr> entries = [CACHE_KEY sample_config \<mapsto> Entry 4000 [sample_event ''old'' None None None]],
       setItem_throws = True \<rparr>"

subsection \<open>The order the comparator induces\<close>

text \<open>An event whose scheduled start, if it has one, is a date that can be read.\<close>

definition readable_start :: "event \<Rightarrow> bool" where
  "readable_start a = (sort_time a \<noteq> NaN)"

text \<open>
  Among such events the comparator orders by the pair (no start?, start); used in the
  proofs only.
\<close>

definition sort_rank :: "event \<Rightarrow> bool \<times> int" where
  "sort_rank a = (case scheduled a of Some (Iso t) \<Rightarrow> (False, t) | _ \<Rightarrow> (True, 0))"


section \<open>Properties of the filter and the sort\<close>

lemma set_insert_sorted: "set (insert_sorted cmp x ys) = insert x (set ys)"
  by (induction ys) auto

lemma set_array_sort: "set (array_sort cmp xs) = set xs"
  by (induction xs) (simp_all add: array_sort_def set_insert_sorted)

lemma set_filter_sort: "set (filter_sort now h evs) = {e \<in> set evs. fresh now h e}"
  by (simp add: filter_sort_def set_array_sort)





lemma comparator_positive:
  "readable_start a \<Longrightarrow> readable_start b \<Longrightarrow>
   js_lt (Num 0) (comparator a b) \<longleftrightarrow> sort_rank b < sort_rank a"
  by (auto simp: readable_start_def comparator_def js_sub_def sort_time_def sort_rank_def
      split: option.splits date_string.splits)

lemma insert_sorted_comparator:
  "readable_start x \<Longrightarrow> \<forall>y \<in> set ys. readable_start y \<Longrightarrow>
   insert_sorted comparator x ys = insort_key sort_rank x ys"
  by (induction ys) (auto simp: comparator_positive)

lemma array_sort_comparator:
  "\<forall>x \<in> set xs. readable_start x \<Longrightarrow> array_sort comparator xs = sort_key sort_rank xs"
proof (induction xs)
  case Nil
  then show ?case by (simp add: array_sort_def)
next
  case (Cons x xs)
  then have "array_sort comparator xs = sort_key sort_rank xs" by simp
  moreover have "insert_sorted comparator x (sort_key sort_rank xs)
                 = insort_key sort_rank x (sort_key sort_rank xs)"
    using Cons.prems by (intro insert_sorted_comparator) simp_all
  ultimately show ?case by (simp add: array_sort_def)
qed

lemma filter_sort_readable:
  "\<forall>e \<in> set evs. fresh now h e \<longrightarrow> readable_start e \<Longrightarrow>
   filter_sort now h evs = sort_key sort_rank (filter (fresh now h) evs)"
  unfolding filter_sort_def by (rule array_sort_comparator) simp

lemma rank_le_both:
  "sort_rank a \<le> sort_rank b \<Longrightarrow> scheduled a = Some (Iso s) \<Longrightarrow> scheduled b = Some (Iso t) \<Longrightarrow>
   s \<le> t"
  by (simp add: sort_rank_def)

lemma rank_none: "readable_start e \<Longrightarrow> sort_rank e = (True, 0) \<longleftrightarrow> scheduled e = None"
  by (auto simp: readable_start_def sort_time_def sort_rank_def
      split: option.splits date_string.splits)

lemma rank_le_none:
  "sort_rank a \<le> sort_rank b \<Longrightarrow> readable_start b \<Longrightarrow> scheduled a = None \<Longrightarrow>
   scheduled b = None"
  by (simp add: readable_start_def sort_time_def sort_rank_def
      split: option.splits date_string.splits)

lemma sorted_wrt_rank:
  assumes "\<forall>e \<in> set evs. fresh now h e \<longrightarrow> readable_start e"
  shows "sorted_wrt (\<lambda>a b. sort_rank a \<le> sort_rank b) (filter_sort now h evs)"
  using sorted_sort_key [of sort_rank "filter (fresh now h) evs"]
  by (simp add: filter_sort_readable [OF assms] sorted_map)

lemma ascending_starts:
  assumes "\<forall>e \<in> set evs. fresh now h e \<longrightarrow> readable_start e"
  shows "sorted_wrt (\<lambda>a b. \<forall>s t. scheduled a = Some (Iso s) \<and> scheduled b = Some (Iso t) \<longrightarrow> s \<le> t)
           (filter_sort now h evs)"
  by (rule sorted_wrt_mono_rel [OF _ sorted_wrt_rank [OF assms]]) (auto dest: rank_le_both)

lemma startless_last:
  assumes "\<forall>e \<in> set evs. fresh now h e \<longrightarrow> readable_start e"
  shows "sorted_wrt (\<lambda>a b. scheduled a = None \<longrightarrow> scheduled b = None) (filter_sort now h evs)"
proof (rule sorted_wrt_mono_rel [OF _ sorted_wrt_rank [OF assms]])
  fix a b
  assume "b \<in> set (filter_sort now h evs)" and le: "sort_rank a \<le> sort_rank b"
  then have "readable_start b" using assms by (simp add: set_filter_sort)
  then show "scheduled a = None \<longrightarrow> scheduled b = None"
    using le by (auto dest: rank_le_none)
qed

lemma startless_order_kept:
  assumes "\<forall>e \<in> set evs. fresh now h e \<longrightarrow> readable_start e"
  shows "filter (\<lambda>e. scheduled e = None) (filter_sort now h evs)
         = filter (\<lambda>e. scheduled e = None) (filter (fresh now h) evs)"
proof -
  have r: "\<forall>e \<in> set (filter (fresh now h) evs). readable_start e"
    using assms by simp
  have "filter (\<lambda>e. scheduled e = None) (sort_key sort_rank (filter (fresh now h) evs))
        = filter (\<lambda>e. sort_rank e = (True, 0)) (sort_key sort_rank (filter (fresh now h) evs))"
    using r by (intro filter_cong) (auto simp: rank_none)
  also have "\<dots> = filter (\<lambda>e. sort_rank e = (True, 0)) (filter (fresh now h) evs)"
    by (rule sort_key_stable)
  also have "\<dots> = filter (\<lambda>e. scheduled e = None) (filter (fresh now h) evs)"
    using r by (intro filter_cong) (auto simp: rank_none)
  finally show ?thesis by (simp add: filter_sort_readable [OF assms])
qed

lemma hidePastMs_Num: "hidePastMs (Num g) = Num (g * 3600000)"
  by (simp add: hidePastMs_def)

section \<open>Properties of the configuration, the cache and the fetch\<close>

lemma skip_space_plain: "space_len s = 0 \<Longrightarrow> skip_space s = s"
  by (simp add: skip_space.simps)

lemma parseInt10_12: "parseInt10 ''12'' = Num 12"
  by (simp add: parseInt10_def skip_space_plain space_len_def is_digit_def digits_value_def
      digit_value_def to_double_def)

lemma MAX_RESULTS_default: "MAX_RESULTS None = Num 12 \<and> MAX_RESULTS (Some []) = Num 12"
  by (simp add: MAX_RESULTS_def or_str_def parseInt10_12 Math_min_def)

lemma to_double_number: "to_double n \<noteq> NaN"
  by (simp add: to_double_def Let_def)

lemma Math_min_50: "x \<noteq> NaN \<Longrightarrow> js_le (Math_min x (Num 50)) (Num 50)"
  by (cases x) (auto simp: Math_min_def js_le_def)

lemma MAX_RESULTS_cases: "MAX_RESULTS a = NaN \<or> js_le (MAX_RESULTS a) (Num 50)"
proof (cases "parseInt10 (or_str a ''12'') = NaN")
  case True
  then show ?thesis by (simp add: MAX_RESULTS_def Math_min_def)
next
  case False
  then show ?thesis by (simp add: MAX_RESULTS_def Math_min_50)
qed

lemma parseInt10_no_break_space: "parseInt10 [CHR 0xC2, CHR 0xA0, CHR ''7''] = Num 7"
  by (simp add: parseInt10_def skip_space.simps [of "[CHR 0xC2, CHR 0xA0, CHR ''7'']"]
      skip_space_plain space_len_def is_digit_def digits_value_def digit_value_def to_double_def)

lemma to_double_rounds: "to_double (- 9007199254740993) = Num (- 9007199254740992)"
  by (simp add: to_double_def Let_def bit_length.simps)

lemma show_error_fields [simp]:
  "grid (show_error w) = Error_box" "status (show_error w) = ''Error loading upcoming streams.''"
  "storage (show_error w) = storage w" "requests (show_error w) = requests w"
  by (simp_all add: show_error_def)

lemma renderGrid_other [simp]:
  "storage (renderGrid cfg vs w) = storage w" "requests (renderGrid cfg vs w) = requests w"
  "status (renderGrid cfg vs w) = status w"
  by (simp_all add: renderGrid_def Let_def)

lemma grid_renderGrid_not_error [simp]: "grid (renderGrid cfg vs w) \<noteq> Error_box"
  by (simp add: renderGrid_def Let_def)

lemma fetch_error_iff:
  "grid (fetchUpcoming cfg net now wrote w) = Error_box \<longleftrightarrow>
   status (fetchUpcoming cfg net now wrote w) = ''Error loading upcoming streams.''"
  by (simp add: fetchUpcoming_def Let_def split: response.splits json_body.splits)

section \<open>The claims\<close>

text \<open>
  C1. Whatever the input list, the clock and the grace period, an event whose actual end
  is set is not in the output of the filter. The grace period is any number here, the
  non-negative hours \<open>hidePastMs (Num g)\<close> among them; the other fields of the event,
  an unreadable scheduled start included, play no part.
\<close>

theorem ended_event_excluded:
  "actualEnd ev \<noteq> None \<Longrightarrow> ev \<notin> set (filter_sort now hide_ms evs)"
  by (simp add: set_filter_sort fresh_def truthy_def)

theorem ended_event_excluded_witness:
  "actualEnd (sample_event ''a'' (Some (Iso 5000)) (Some (Iso 5000)) (Some (Iso 9000))) \<noteq> None
   \<and> sample_event ''a'' (Some (Iso 5000)) (Some (Iso 5000)) (Some (Iso 9000))
        \<notin> set (filter_sort 7000 (hidePastMs (Num 6))
                  [sample_event ''b'' None None None,
                   sample_event ''a'' (Some (Iso 5000)) (Some (Iso 5000)) (Some (Iso 9000))])"
  using ended_event_excluded [of "sample_event ''a'' (Some (Iso 5000)) (Some (Iso 5000)) (Some (Iso 9000))" 7000
      "hidePastMs (Num 6)"
      "[sample_event ''b'' None None None, sample_event ''a'' (Some (Iso 5000)) (Some (Iso 5000)) (Some (Iso 9000))]"]
  by (simp add: sample_event_def)

text \<open>
  C2. With a grace period of \<open>g \<ge> 0\<close> hours and the clock at \<open>T\<close>, an event that has
  neither ended nor started and is scheduled one hour before \<open>T - g\<close> hours is not in the
  output; the same event scheduled one hour after \<open>T - g\<close> hours is in the output whenever
  it is in the input.
\<close>

theorem stale_boundary:
  assumes "0 \<le> g" and "actualEnd ev = None" and "actualStart ev = None"
  shows "ev\<lparr>scheduled := Some (Iso (T - g * 3600000 - 3600000))\<rparr>
           \<notin> set (filter_sort T (hidePastMs (Num g)) evs)
         \<and> (ev\<lparr>scheduled := Some (Iso (T - g * 3600000 + 3600000))\<rparr> \<in> set evs \<longrightarrow>
            ev\<lparr>scheduled := Some (Iso (T - g * 3600000 + 3600000))\<rparr>
              \<in> set (filter_sort T (hidePastMs (Num g)) evs))"
  using assms by (simp add: set_filter_sort fresh_def truthy_def hidePastMs_Num)

theorem stale_boundary_witness:
  "(0::int) \<le> 6
   \<and> actualEnd (sample_event ''x'' None None None) = None
   \<and> actualStart (sample_event ''x'' None None None) = None
   \<and> filter_sort 100000000 (hidePastMs (Num 6))
        [sample_event ''x'' (Some (Iso (100000000 - 6 * 3600000 - 3600000))) None None,
         sample_event ''x'' (Some (Iso (100000000 - 6 * 3600000 + 3600000))) None None]
      = [sample_event ''x'' (Some (Iso (100000000 - 6 * 3600000 + 3600000))) None None]"
  using stale_boundary [of 6 "sample_event ''x'' None None None" 100000000
      "[sample_event ''x'' (Some (Iso (100000000 - 6 * 3600000 - 3600000))) None None,
        sample_event ''x'' (Some (Iso (100000000 - 6 * 3600000 + 3600000))) None None]"]
  by (simp add: sample_event_def filter_sort_def array_sort_def fresh_def truthy_def hidePastMs_def)

text \<open>
  C3, as the claim states it, fails on a list that holds a scheduled start \<^verbatim>\<open>Date\<close>
  cannot read: the comparator gives NaN for that event against every other one, nothing
  is moved, and a later start stays ahead of an earlier one.
\<close>

theorem sorted_by_start_counterexample:
  "filter_sort 7000 (hidePastMs (Num 6))
     [sample_event ''jan2'' (Some (Iso 9000)) None None,
      sample_event ''bad'' (Some (Unreadable ''soon'')) None None,
      sample_event ''jan1'' (Some (Iso 8000)) None None]
   = [sample_event ''jan2'' (Some (Iso 9000)) None None,
      sample_event ''bad'' (Some (Unreadable ''soon'')) None None,
      sample_event ''jan1'' (Some (Iso 8000)) None None]
   \<and> \<not> sorted_wrt (\<lambda>a b. \<forall>s t. scheduled a = Some (Iso s) \<and> scheduled b = Some (Iso t) \<longrightarrow> s \<le> t)
         (filter_sort 7000 (hidePastMs (Num 6))
            [sample_event ''jan2'' (Some (Iso 9000)) None None,
             sample_event ''bad'' (Some (Unreadable ''soon'')) None None,
             sample_event ''jan1'' (Some (Iso 8000)) None None])"
  by (simp add: sample_event_def filter_sort_def array_sort_def fresh_def truthy_def hidePastMs_def
      comparator_def sort_time_def js_sub_def)

text \<open>
  C3, amended. When every retained event has a scheduled start that can be read, or none:
  of two output events that both have a scheduled start the earlier one comes first; no
  event with a scheduled start comes after one without; and the events without a
  scheduled start are, in this order, those of the retained input.
\<close>

theorem sorted_by_start_stable:
  assumes "\<forall>e \<in> set evs. fresh now h e \<longrightarrow> readable_start e"
  shows "sorted_wrt (\<lambda>a b. \<forall>s t. scheduled a = Some (Iso s) \<and> scheduled b = Some (Iso t) \<longrightarrow> s \<le> t)
           (filter_sort now h evs)
       \<and> sorted_wrt (\<lambda>a b. scheduled a = None \<longrightarrow> scheduled b = None) (filter_sort now h evs)
       \<and> filter (\<lambda>e. scheduled e = None) (filter_sort now h evs)
         = filter (\<lambda>e. scheduled e = None) (filter (fresh now h) evs)"
  by (intro conjI ascending_starts startless_last startless_order_kept assms)

theorem sorted_by_start_stable_witness:
  "readable_start (sample_event ''a'' None None None)
   \<and> readable_start (sample_event ''b'' (Some (Iso 9000)) None None)
   \<and> readable_start (sample_event ''c'' None None None)
   \<and> readable_start (sample_event ''d'' (Some (Iso 8000)) None None)
   \<and> filter_sort 7000 (hidePastMs (Num 6))
       [sample_event ''a'' None None None,
        sample_event ''b'' (Some (Iso 9000)) None None,
        sample_event ''c'' None None None,
        sample_event ''d'' (Some (Iso 8000)) None None]
     = [sample_event ''d'' (Some (Iso 8000)) None None,
        sample_event ''b'' (Some (Iso 9000)) None None,
        sample_event ''a'' None None None,
        sample_event ''c'' None None None]
   \<and> sorted_wrt (\<lambda>a b. \<forall>s t. scheduled a = Some (Iso s) \<and> scheduled b = Some (Iso t) \<longrightarrow> s \<le> t)
       [sample_event ''d'' (Some (Iso 8000)) None None,
        sample_event ''b'' (Some (Iso 9000)) None None,
        sample_event ''a'' None None None,
        sample_event ''c'' None None None]
   \<and> sorted_wrt (\<lambda>a b. scheduled a = None \<longrightarrow> scheduled b = None)
       [sample_event ''d'' (Some (Iso 8000)) None None,
        sample_event ''b'' (Some (Iso 9000)) None None,
        sample_event ''a'' None None None,
        sample_event ''c'' None None None]"
  using sorted_by_start_stable [of
     "[sample_event ''a'' None None None,
       sample_event ''b'' (Some (Iso 9000)) None None,
       sample_event ''c'' None None None,
       sample_event ''d'' (Some (Iso 8000)) None None]" 7000 "hidePastMs (Num 6)"]
  by (simp add: sample_event_def filter_sort_def array_sort_def fresh_def truthy_def hidePastMs_def
      comparator_def sort_time_def js_sub_def readable_start_def)


text \<open>
  C5, as the claim states it, fails where the storage refuses the write: \<^verbatim>\<open>writeCache\<close>
  swallows the exception of \<^verbatim>\<open>setItem\<close>, nothing is stored, and the read one millisecond
  before the expiry finds no entry.
\<close>

theorem cache_roundtrip_counterexample:
  "readCache sample_config (1000 + CACHE_MS - 1)
     (writeCache sample_config 1000 [sample_event ''a'' None None None]
        \<lparr> entries = Map.empty, setItem_throws = True \<rparr>)
   \<noteq> Some [sample_event ''a'' None None None]"
  by (simp add: readCache_def writeCache_def)

text \<open>
  C5, amended. Where the storage accepts the write, a payload written at \<open>T\<close> is read back
  at \<open>T + CACHE_MS - 1\<close>, and the read at \<open>T + CACHE_MS + 1\<close> gives nothing; \<open>CACHE_MS\<close> is
  five minutes.
\<close>

theorem cache_roundtrip:
  "\<not> setItem_throws ls \<Longrightarrow>
   CACHE_MS = 300000
   \<and> readCache cfg (T + CACHE_MS - 1) (writeCache cfg T P ls) = Some P
   \<and> readCache cfg (T + CACHE_MS + 1) (writeCache cfg T P ls) = None"
  by (simp add: readCache_def writeCache_def CACHE_MS_def)

theorem cache_roundtrip_witness:
  "\<not> setItem_throws empty_storage
   \<and> readCache sample_config (1000 + CACHE_MS - 1)
       (writeCache sample_config 1000 [sample_event ''a'' None None None] empty_storage)
     = Some [sample_event ''a'' None None None]
   \<and> readCache sample_config (1000 + CACHE_MS + 1)
       (writeCache sample_config 1000 [sample_event ''a'' None None None] empty_storage)
     = None"
  using cache_roundtrip [of empty_storage sample_config 1000 "[sample_event ''a'' None None None]"]
  by (simp add: empty_storage_def)

text \<open>
  C6, as the claim states it, fails where the storage refuses the write: the search gives
  no identifier, \<^verbatim>\<open>writeCache([])\<close> is called and its exception swallowed, so no empty
  payload is under the channel's key and a read still gives the list stored before.
\<close>

theorem empty_search_counterexample:
  "search_endpoint nothing_scheduled (searchURL sample_config) = Response 200 (Json (Some []))
   \<and> video_ids (Some []) = []
   \<and> entries (storage (fetchUpcoming sample_config nothing_scheduled 5000 5001
                         (sample_widget refusing_storage))) (CACHE_KEY sample_config)
       \<noteq> Some (Entry 5001 [])
   \<and> readCache sample_config 5002
        (storage (fetchUpcoming sample_config nothing_scheduled 5000 5001
                    (sample_widget refusing_storage)))
       = Some [sample_event ''old'' None None None]"
  by (simp add: nothing_scheduled_def offline_def ok_def video_ids_def List.map_filter_simps
      fetchUpcoming_def Let_def writeCache_def readCache_def sample_widget_def
      refusing_storage_def CACHE_MS_def)

text \<open>
  C6, amended. When the search gives no video identifier, \<^verbatim>\<open>fetchUpcoming\<close> renders the
  empty list (the call to action) and sets the status of an empty schedule; where the
  storage accepts the write the empty payload is stored under the channel's key, stamped
  with the time of the write, and where it refuses the storage stays as it was; no request
  but the search is sent, and the error is not shown.
\<close>

theorem empty_search_short_circuit:
  assumes "search_endpoint net (searchURL cfg) = Response st (Json its)"
      and "ok st" and "video_ids its = []"
  shows "grid (fetchUpcoming cfg net now wrote w) = grid (renderGrid cfg [] w)
       \<and> (\<exists>live sub. grid (fetchUpcoming cfg net now wrote w) = Cta live sub)
       \<and> status (fetchUpcoming cfg net now wrote w) = ''No upcoming live streams scheduled.''
       \<and> (\<not> setItem_throws (storage w) \<longrightarrow>
            storage (fetchUpcoming cfg net now wrote w)
              = (storage w)\<lparr>entries := (entries (storage w))(CACHE_KEY cfg \<mapsto> Entry wrote [])\<rparr>
            \<and> readCache cfg wrote (storage (fetchUpcoming cfg net now wrote w)) = Some [])
       \<and> (setItem_throws (storage w) \<longrightarrow>
            storage (fetchUpcoming cfg net now wrote w) = storage w)
       \<and> requests (fetchUpcoming cfg net now wrote w)
           = requests w @ [Search_request (searchURL cfg)]
       \<and> grid (fetchUpcoming cfg net now wrote w) \<noteq> Error_box
       \<and> status (fetchUpcoming cfg net now wrote w) \<noteq> ''Error loading upcoming streams.''"
proof -
  have run: "fetchUpcoming cfg net now wrote w =
      (renderGrid cfg [] (w\<lparr>status := loading_text,
            requests := requests w @ [Search_request (searchURL cfg)]\<rparr>))
        \<lparr>status := ''No upcoming live streams scheduled.'',
         storage := writeCache cfg wrote [] (storage w)\<rparr>"
    using assms by (simp add: fetchUpcoming_def Let_def)
  show ?thesis
    unfolding run by (simp add: renderGrid_def writeCache_def readCache_def Let_def CACHE_MS_def)
qed

theorem empty_search_short_circuit_witness:
  "search_endpoint nothing_scheduled (searchURL sample_config) = Response 200 (Json (Some []))
   \<and> ok 200 \<and> video_ids (Some []) = []
   \<and> \<not> setItem_throws (storage (sample_widget empty_storage))
   \<and> setItem_throws (storage (sample_widget refusing_storage))
   \<and> fetchUpcoming sample_config nothing_scheduled 5000 5001 (sample_widget empty_storage)
     = \<lparr> storage = \<lparr> entries = [CACHE_KEY sample_config \<mapsto> Entry 5001 []],
                       setItem_throws = False \<rparr>,
         grid = Cta ''https://www.youtube.com/channel/UC1/live''
                    ''https://www.youtube.com/channel/UC1?sub_confirmation=1'',
         status = ''No upcoming live streams scheduled.'',
         requests = [Search_request (searchURL sample_config)] \<rparr>
   \<and> storage (fetchUpcoming sample_config nothing_scheduled 5000 5001
                (sample_widget refusing_storage)) = refusing_storage"
  using empty_search_short_circuit [of nothing_scheduled sample_config 200 "Some []" 5000 5001
      "sample_widget empty_storage"]
    empty_search_short_circuit [of nothing_scheduled sample_config 200 "Some []" 5000 5001
      "sample_widget refusing_storage"]
  by (simp add: nothing_scheduled_def offline_def ok_def video_ids_def List.map_filter_simps
      fetchUpcoming_def Let_def renderGrid_def writeCache_def sample_widget_def sample_config_def
      CACHE_KEY_def empty_storage_def refusing_storage_def)

text \<open>
  C7. When the search or the details request fails (no response, or a status outside
  200 to 299), \<^verbatim>\<open>fetchUpcoming\<close> shows the error box and the error status, and the storage
  is the one it started with: a read of the cache gives what it gave before.
\<close>

theorem remote_failure_keeps_cache:
  assumes "search_endpoint net (searchURL cfg) = Network_error
           \<or> (\<exists>st body. search_endpoint net (searchURL cfg) = Response st body \<and> \<not> ok st)
           \<or> (\<exists>st its. search_endpoint net (searchURL cfg) = Response st (Json its) \<and> ok st
                \<and> video_ids its \<noteq> []
                \<and> (videos_endpoint net (videosURL cfg (video_ids its)) = Network_error
                   \<or> (\<exists>st2 body2. videos_endpoint net (videosURL cfg (video_ids its))
                                     = Response st2 body2 \<and> \<not> ok st2)))"
  shows "grid (fetchUpcoming cfg net now wrote w) = Error_box
       \<and> status (fetchUpcoming cfg net now wrote w) = ''Error loading upcoming streams.''
       \<and> storage (fetchUpcoming cfg net now wrote w) = storage w
       \<and> (\<forall>t. readCache cfg t (storage (fetchUpcoming cfg net now wrote w))
               = readCache cfg t (storage w))"
proof -
  have "\<exists>w'. fetchUpcoming cfg net now wrote w = show_error w' \<and> storage w' = storage w"
    using assms by (auto simp: fetchUpcoming_def Let_def)
  then show ?thesis by auto
qed

theorem remote_failure_keeps_cache_witness:
  "search_endpoint forbidden_details (searchURL sample_config)
     = Response 200 (Json (Some [\<lparr> videoId = Some ''v1'' \<rparr>]))
   \<and> ok 200 \<and> video_ids (Some [\<lparr> videoId = Some ''v1'' \<rparr>]) \<noteq> []
   \<and> videos_endpoint forbidden_details
       (videosURL sample_config (video_ids (Some [\<lparr> videoId = Some ''v1'' \<rparr>])))
     = Response 403 Malformed
   \<and> \<not> ok 403
   \<and> grid (fetchUpcoming sample_config forbidden_details 5000 5001
        (sample_widget (writeCache sample_config 4000 [sample_event ''a'' None None None] empty_storage)))
     = Error_box
   \<and> readCache sample_config 6000 (storage (fetchUpcoming sample_config forbidden_details 5000 5001
        (sample_widget (writeCache sample_config 4000 [sample_event ''a'' None None None] empty_storage))))
     = Some [sample_event ''a'' None None None]"
  using remote_failure_keeps_cache [of forbidden_details sample_config 5000 5001
      "sample_widget (writeCache sample_config 4000 [sample_event ''a'' None None None] empty_storage)"]
  by (simp add: forbidden_details_def ok_def video_ids_def List.map_filter_simps
      sample_widget_def writeCache_def readCache_def empty_storage_def CACHE_MS_def)

text \<open>
  C8. The attribute \<^verbatim>\<open>data-max-results="abc"\<close> has no digit: \<^verbatim>\<open>parseInt\<close> gives NaN,
  \<^verbatim>\<open>Math.min(NaN, 50)\<close> is NaN, and NaN is the maximum the search request carries. NaN is
  not at most 50.
\<close>

theorem max_results_not_a_number:
  "MAX_RESULTS (Some ''abc'') = NaN
   \<and> \<not> js_le (MAX_RESULTS (Some ''abc'')) (Num 50)
   \<and> map_option (\<lambda>cfg. s_maxResults (searchURL cfg)) (read_config (sample_attributes (Some ''abc'')))
       = Some NaN"
  by (simp add: MAX_RESULTS_def or_str_def parseInt10_def skip_space_plain space_len_def
      is_digit_def Math_min_def js_le_def read_config_def sample_attributes_def searchURL_def)

text \<open>
  C9, as the claim states it, fails in its last part on a response that also holds an
  item whose scheduled start \<^verbatim>\<open>Date\<close> cannot read: the comparator gives NaN between the
  two, the item without \<^verbatim>\<open>liveStreamingDetails\<close> is not moved and stays ahead of an event
  that has a scheduled start.
\<close>

theorem missing_live_details_counterexample:
  "liveStreamingDetails (sample_video ''p'' None) = None
   \<and> detailed 7000 (hidePastMs (Num 6))
       [sample_video ''p'' None,
        sample_video ''bad'' (Some \<lparr> scheduledStartTime = Some (Unreadable ''soon''),
                                      actualStartTime = None, actualEndTime = None \<rparr>)]
     = [normalize (sample_video ''p'' None),
        normalize (sample_video ''bad'' (Some \<lparr> scheduledStartTime = Some (Unreadable ''soon''),
                                                 actualStartTime = None, actualEndTime = None \<rparr>))]
   \<and> scheduled (normalize (sample_video ''bad''
        (Some \<lparr> scheduledStartTime = Some (Unreadable ''soon''),
                actualStartTime = None, actualEndTime = None \<rparr>))) \<noteq> None"
  by (simp add: sample_video_def detailed_def normalize_def filter_sort_def array_sort_def fresh_def
      truthy_def hidePastMs_def comparator_def sort_time_def js_sub_def)

text \<open>
  C9, amended. An item without \<^verbatim>\<open>liveStreamingDetails\<close> becomes an event whose three
  date-times are null. The filter keeps it whatever the clock and the grace period, so it
  is in the output when the item is in the response; and when every scheduled start in
  the output can be read, every event behind it in the output has no scheduled start
  either.
\<close>

theorem missing_live_details:
  assumes "liveStreamingDetails v = None"
  shows "scheduled (normalize v) = None \<and> actualStart (normalize v) = None
       \<and> actualEnd (normalize v) = None
       \<and> fresh now h (normalize v)
       \<and> (v \<in> set vs \<longrightarrow> normalize v \<in> set (detailed now h vs))
       \<and> ((\<forall>e \<in> set (detailed now h vs). readable_start e) \<longrightarrow>
            (\<forall>ys zs. detailed now h vs = ys @ normalize v # zs \<longrightarrow>
               (\<forall>e \<in> set zs. scheduled e = None)))"
proof -
  have n: "scheduled (normalize v) = None" "actualStart (normalize v) = None"
    "actualEnd (normalize v) = None"
    using assms by (simp_all add: normalize_def)
  have f: "fresh now h (normalize v)"
    using n by (simp add: fresh_def truthy_def)
  have m: "v \<in> set vs \<longrightarrow> normalize v \<in> set (detailed now h vs)"
    using f by (simp add: detailed_def set_filter_sort)
  have l: "\<forall>e \<in> set zs. scheduled e = None"
    if r: "\<forall>e \<in> set (detailed now h vs). readable_start e"
      and d: "detailed now h vs = ys @ normalize v # zs" for ys zs
  proof -
    have "\<forall>e \<in> set (map normalize vs). fresh now h e \<longrightarrow> readable_start e"
      using r by (simp add: detailed_def set_filter_sort)
    then have "sorted_wrt (\<lambda>a b. scheduled a = None \<longrightarrow> scheduled b = None)
                 (filter_sort now h (map normalize vs))"
      by (rule startless_last)
    then show ?thesis
      using d n(1) by (simp add: detailed_def sorted_wrt_append)
  qed
  show ?thesis using n f m l by blast
qed

theorem missing_live_details_witness:
  "liveStreamingDetails (sample_video ''p'' None) = None
   \<and> sample_video ''p'' None \<in> set [sample_video ''p'' None,
         sample_video ''q'' (Some \<lparr> scheduledStartTime = Some (Iso 9000), actualStartTime = None,
                                     actualEndTime = None \<rparr>)]
   \<and> readable_start (normalize (sample_video ''p'' None))
   \<and> readable_start (normalize (sample_video ''q''
         (Some \<lparr> scheduledStartTime = Some (Iso 9000), actualStartTime = None,
                 actualEndTime = None \<rparr>)))
   \<and> detailed 7000 (hidePastMs (Num 0))
       [sample_video ''p'' None,
        sample_video ''q'' (Some \<lparr> scheduledStartTime = Some (Iso 9000), actualStartTime = None,
                                    actualEndTime = None \<rparr>)]
     = [normalize (sample_video ''q'' (Some \<lparr> scheduledStartTime = Some (Iso 9000),
                                               actualStartTime = None, actualEndTime = None \<rparr>)),
        normalize (sample_video ''p'' None)]
   \<and> scheduled (normalize (sample_video ''p'' None)) = None"
  using missing_live_details [of "sample_video ''p'' None" 7000 "hidePastMs (Num 0)"
       "[sample_video ''p'' None,
         sample_video ''q'' (Some \<lparr> scheduledStartTime = Some (Iso 9000), actualStartTime = None,
                                     actualEndTime = None \<rparr>)]"]
  by (simp add: sample_video_def detailed_def normalize_def filter_sort_def array_sort_def fresh_def
      truthy_def hidePastMs_def comparator_def sort_time_def js_sub_def readable_start_def)

text \<open>
  C10. A cache entry that has not expired is a hit whatever its payload, the empty list
  included (an array is truthy): \<^verbatim>\<open>loadFromCache\<close> renders the payload, sets the status and
  returns true; for the empty payload the grid is the call to action.
\<close>

theorem empty_cache_is_hit:
  assumes "entries (storage w) (CACHE_KEY cfg) = Some (Entry ts data)" and "now - ts \<le> CACHE_MS"
  shows "loadFromCache cfg now w = ((renderGrid cfg data w)\<lparr>status := ''Loaded from cache.''\<rparr>, True)
       \<and> (data = [] \<longrightarrow> (\<exists>live sub. grid (fst (loadFromCache cfg now w)) = Cta live sub))"
  using assms by (simp add: loadFromCache_def readCache_def renderGrid_def Let_def)

theorem empty_cache_is_hit_witness:
  "entries (storage (sample_widget (writeCache sample_config 4000 [] empty_storage)))
       (CACHE_KEY sample_config)
     = Some (Entry 4000 [])
   \<and> 5000 - 4000 \<le> CACHE_MS
   \<and> loadFromCache sample_config 5000 (sample_widget (writeCache sample_config 4000 [] empty_storage))
     = (\<lparr> storage = writeCache sample_config 4000 [] empty_storage,
           grid = Cta ''https://www.youtube.com/channel/UC1/live''
                      ''https://www.youtube.com/channel/UC1?sub_confirmation=1'',
           status = ''Loaded from cache.'', requests = [] \<rparr>, True)"
  using empty_cache_is_hit [of "sample_widget (writeCache sample_config 4000 [] empty_storage)"
      sample_config 4000 "[]" 5000]
  by (simp add: sample_widget_def writeCache_def empty_storage_def CACHE_MS_def renderGrid_def
      sample_config_def)

end
